theory Spec2Isabelle
  imports Complex_Main
begin

section \<open>Texts\<close>

text \<open>
  A JavaScript string is the list of its UTF-16 code units. The development covers the
  texts whose code units are below 256, one \<^typ>\<open>char\<close> for each code unit, so that
  \<^const>\<open>length\<close> is JavaScript's \<^verbatim>\<open>.length\<close>.

  \<^verbatim>\<open>\s\<close> of a regular expression (and the white space that \<^verbatim>\<open>trim\<close> and
  \<^verbatim>\<open>parseInt\<close> skip) is TAB, LF, VT, FF, CR, SP and NBSP in that range;
  \<^verbatim>\<open>\w\<close> is \<^verbatim>\<open>[A-Za-z0-9_]\<close>; \<^verbatim>\<open>\d\<close> is \<^verbatim>\<open>[0-9]\<close>.
\<close>

definition isSpace :: "char \<Rightarrow> bool" where
  "isSpace c \<longleftrightarrow>
     c = CHR 0x09 \<or> c = CHR 0x0A \<or> c = CHR 0x0B \<or> c = CHR 0x0C \<or> c = CHR 0x0D \<or>
     c = CHR 0x20 \<or> c = CHR 0xA0"

definition isDigit :: "char \<Rightarrow> bool" where
  "isDigit c \<longleftrightarrow> (let n = (of_char c :: nat) in 48 \<le> n \<and> n \<le> 57)"

definition isWord :: "char \<Rightarrow> bool" where
  "isWord c \<longleftrightarrow>
     (let n = (of_char c :: nat) in
        (65 \<le> n \<and> n \<le> 90) \<or> (97 \<le> n \<and> n \<le> 122) \<or> (48 \<le> n \<and> n \<le> 57) \<or> n = 95)"

text \<open>\<^verbatim>\<open>s.indexOf(c)\<close> and \<^verbatim>\<open>s.lastIndexOf(c)\<close>: the index of the first (last)
  occurrence of the character, \<open>-1\<close> when there is none.\<close>

fun indexOf :: "string \<Rightarrow> char \<Rightarrow> int" where
  "indexOf [] c = -1"
| "indexOf (x # xs) c =
     (if x = c then 0 else (let i = indexOf xs c in if i = -1 then -1 else i + 1))"

fun lastIndexOf :: "string \<Rightarrow> char \<Rightarrow> int" where
  "lastIndexOf [] c = -1"
| "lastIndexOf (x # xs) c =
     (let i = lastIndexOf xs c in if i \<noteq> -1 then i + 1 else if x = c then 0 else -1)"

text \<open>\<^verbatim>\<open>s.substring(a, b)\<close>: both indices are clamped to \<open>[0, length]\<close> and swapped when
  they are out of order.\<close>

definition substring :: "string \<Rightarrow> int \<Rightarrow> int \<Rightarrow> string" where
  "substring s a b =
     (let n = int (length s);
          a' = max 0 (min a n);
          b' = max 0 (min b n);
          lo = min a' b';
          hi = max a' b'
      in take (nat (hi - lo)) (drop (nat lo) s))"

text \<open>\<^verbatim>\<open>s.trim()\<close>.\<close>

definition trimEnd :: "string \<Rightarrow> string" where
  "trimEnd s = rev (dropWhile isSpace (rev s))"

definition trim :: "string \<Rightarrow> string" where
  "trim s = trimEnd (dropWhile isSpace s)"

section \<open>The code fence\<close>

text \<open>
  \<^verbatim>\<open>jsonStr.match(/```(?:json)?\s*([\s\S]*?)\s*```/)\<close> (part_000, line 174). The match
  starts at the first run of three backticks; an optional \<^verbatim>\<open>json\<close> and all white space
  after it are skipped (both greedy; neither can give anything back, since what follows
  must then start at a character they would have taken); the lazy group takes the text up
  to the next three backticks, less the white space before them, which the greedy
  \<^verbatim>\<open>\s*\<close> behind the group claims. When no three backticks follow, no later start
  matches either. The result is capture group 1.
\<close>

definition tick :: char where
  "tick = CHR 0x60"

fun afterTicks :: "string \<Rightarrow> string option" where
  "afterTicks (a # b # c # rest) =
     (if a = tick \<and> b = tick \<and> c = tick then Some rest else afterTicks (b # c # rest))"
| "afterTicks _ = None"

fun beforeTicks :: "string \<Rightarrow> string option" where
  "beforeTicks (a # b # c # rest) =
     (if a = tick \<and> b = tick \<and> c = tick then Some []
      else map_option (Cons a) (beforeTicks (b # c # rest)))"
| "beforeTicks _ = None"

definition codeBlockMatch :: "string \<Rightarrow> string option" where
  "codeBlockMatch s =
     (case afterTicks s of
        None \<Rightarrow> None
      | Some r \<Rightarrow>
          (let p = (if take 4 r = ''json'' then drop 4 r else r);
               q = dropWhile isSpace p
           in map_option trimEnd (beforeTicks q)))"

section \<open>Extraction\<close>

datatype error = InvalidResponse | NoJsonFound | TypeError

text \<open>Step 1 of \<^verbatim>\<open>parseAIResponse\<close> (part_000, lines 170-187): the text of the first
  code fence when there is one, else the raw text; then the span from the first opening
  brace to the last closing brace, or the error
  \<^verbatim>\<open>No valid JSON object found in AI response\<close>.\<close>

definition stripFence :: "string \<Rightarrow> string" where
  "stripFence rawText = (case codeBlockMatch rawText of Some body \<Rightarrow> body | None \<Rightarrow> rawText)"

definition extractJson :: "string \<Rightarrow> error + string" where
  "extractJson rawText =
     (let jsonStr = stripFence rawText;
          firstBrace = indexOf jsonStr CHR ''{'';
          lastBrace = lastIndexOf jsonStr CHR ''}''
      in if firstBrace = -1 \<or> lastBrace = -1 \<or> firstBrace \<ge> lastBrace
         then Inl NoJsonFound
         else Inr (substring jsonStr firstBrace (lastBrace + 1)))"




section \<open>Values\<close>

text \<open>
  A JavaScript number is a double: not-a-number, an infinity, or a finite value. The finite
  values are kept as rationals. The program only compares numbers, takes the larger or the
  smaller of two, and once multiplies by 1.5; comparing and selecting are exact on doubles,
  and the rounding of the one product is not modelled (the model keeps the exact product).
  Positive and negative zero are one value: the program cannot tell them apart.
\<close>

datatype jsnum = NaN | NegInf | Fin rat | PosInf

fun num_le :: "jsnum \<Rightarrow> jsnum \<Rightarrow> bool" where
  "num_le NaN _ = False"
| "num_le _ NaN = False"
| "num_le NegInf _ = True"
| "num_le _ PosInf = True"
| "num_le (Fin a) (Fin b) = (a \<le> b)"
| "num_le _ _ = False"

fun num_less :: "jsnum \<Rightarrow> jsnum \<Rightarrow> bool" where
  "num_less NaN _ = False"
| "num_less _ NaN = False"
| "num_less PosInf _ = False"
| "num_less _ NegInf = False"
| "num_less (Fin a) (Fin b) = (a < b)"
| "num_less _ _ = True"

text \<open>\<^verbatim>\<open>Math.max(a, b)\<close> and \<^verbatim>\<open>Math.min(a, b)\<close>: not-a-number when an argument is.\<close>

definition Math_max :: "jsnum \<Rightarrow> jsnum \<Rightarrow> jsnum" where
  "Math_max a b = (if a = NaN \<or> b = NaN then NaN else if num_le a b then b else a)"

definition Math_min :: "jsnum \<Rightarrow> jsnum \<Rightarrow> jsnum" where
  "Math_min a b = (if a = NaN \<or> b = NaN then NaN else if num_le a b then a else b)"

text \<open>The values \<^verbatim>\<open>JSON.parse\<close> delivers. An object is the list of its keys with their
  values; \<^verbatim>\<open>undefined\<close>, which is not a JSON value, is \<^const>\<open>None\<close> where a
  value is optional.\<close>

datatype json =
    JNull
  | JBool bool
  | JNum jsnum
  | JStr string
  | JArr "json list"
  | JObj "(string \<times> json) list"

text \<open>Truthiness: \<^verbatim>\<open>null\<close>, \<^verbatim>\<open>false\<close>, zero, not-a-number and the empty string are
  falsy, and so is \<^verbatim>\<open>undefined\<close>; every array and object is truthy.\<close>

fun truthy :: "json \<Rightarrow> bool" where
  "truthy JNull = False"
| "truthy (JBool b) = b"
| "truthy (JNum n) = (n \<noteq> NaN \<and> n \<noteq> Fin 0)"
| "truthy (JStr s) = (s \<noteq> [])"
| "truthy (JArr xs) = True"
| "truthy (JObj kvs) = True"

text \<open>\<^verbatim>\<open>x || d\<close>.\<close>

definition orElse :: "json option \<Rightarrow> json \<Rightarrow> json" where
  "orElse x d = (case x of Some v \<Rightarrow> if truthy v then v else d | None \<Rightarrow> d)"

text \<open>\<^verbatim>\<open>v.key\<close> on a value that is neither \<^verbatim>\<open>null\<close> nor \<^verbatim>\<open>undefined\<close>. The
  keys the program reads are names of fields, never \<^verbatim>\<open>length\<close> or an index, so a
  string, a number, a boolean and an array have none of them. \<^verbatim>\<open>x?.key\<close> is
  \<^verbatim>\<open>undefined\<close> on \<^verbatim>\<open>null\<close> and \<^verbatim>\<open>undefined\<close>.\<close>

fun field :: "json \<Rightarrow> string \<Rightarrow> json option" where
  "field (JObj kvs) k = map_of kvs k"
| "field _ k = None"

definition optField :: "json option \<Rightarrow> string \<Rightarrow> json option" where
  "optField x k = (case x of None \<Rightarrow> None | Some JNull \<Rightarrow> None | Some v \<Rightarrow> field v k)"

section \<open>parseInt\<close>

text \<open>
  \<^verbatim>\<open>parseInt(s)\<close> with no radix: leading white space is skipped, then an optional sign,
  then \<^verbatim>\<open>0x\<close> or \<^verbatim>\<open>0X\<close> selects radix 16 (else 10); the longest run of digits of the
  radix is the number, and no digit at all gives not-a-number (\<^const>\<open>None\<close>). The
  integer is kept exact; the program clamps it to \<open>[0, 100]\<close> at once, which erases what
  a double would round above \<open>2\<^sup>5\<^sup>3\<close>.
\<close>

definition digitOf :: "char \<Rightarrow> nat" where
  "digitOf c =
     (let n = (of_char c :: nat) in
        if 48 \<le> n \<and> n \<le> 57 then n - 48
        else if 97 \<le> n \<and> n \<le> 102 then n - 87
        else if 65 \<le> n \<and> n \<le> 70 then n - 55
        else 99)"

definition isRadixDigit :: "nat \<Rightarrow> char \<Rightarrow> bool" where
  "isRadixDigit R c \<longleftrightarrow> digitOf c < R"

definition digitsVal :: "nat \<Rightarrow> string \<Rightarrow> nat" where
  "digitsVal R z = foldl (\<lambda>acc c. acc * R + digitOf c) 0 z"

definition parseInt :: "string \<Rightarrow> int option" where
  "parseInt str =
     (let s = dropWhile isSpace str;
          neg = (take 1 s = ''-'');
          s1 = (if take 1 s = ''-'' \<or> take 1 s = ''+'' then drop 1 s else s);
          hex = (take 2 s1 = ''0x'' \<or> take 2 s1 = ''0X'');
          s2 = (if hex then drop 2 s1 else s1);
          R = (if hex then 16 else 10);
          z = takeWhile (isRadixDigit R) s2
      in if z = [] then None
         else Some ((if neg then -1 else 1) * int (digitsVal R z)))"

section \<open>The business analysis\<close>

text \<open>The record \<^verbatim>\<open>validateAndRepairAnalysis\<close> and \<^verbatim>\<open>createFallbackAnalysis\<close> build
  (part_000, lines 229-293). The code never checks the type of a \<^verbatim>\<open>reason\<close>, so it is
  any JSON value; \<^verbatim>\<open>fallback\<close> is \<^const>\<open>None\<close> when the object has no such key.\<close>

record solution =
  sol_id :: string
  reason :: json

record recommended =
  primary :: solution
  secondary :: solution

record analysis =
  businessType :: string
  detectedFocus :: string
  topProblems :: "string list"
  recommendedSolutions :: recommended
  confidence :: jsnum
  fallback :: "bool option"

definition validSolutionIds :: "string list" where
  "validSolutionIds = [''website'', ''whatsapp'', ''instagram'']"

text \<open>\<^verbatim>\<open>typeof x === 'string' && x.length > 0 ? x : d\<close>.\<close>

definition nonEmptyStringOr :: "json option \<Rightarrow> string \<Rightarrow> string" where
  "nonEmptyStringOr x d = (case x of Some (JStr s) \<Rightarrow> if length s > 0 then s else d | _ \<Rightarrow> d)"

text \<open>\<^verbatim>\<open>xs.filter(p => typeof p === 'string' && p.length > 0)\<close>.\<close>

fun filterProblems :: "json list \<Rightarrow> string list" where
  "filterProblems [] = []"
| "filterProblems (JStr s # xs) = (if length s > 0 then s # filterProblems xs else filterProblems xs)"
| "filterProblems (x # xs) = filterProblems xs"

text \<open>\<^verbatim>\<open>if (!validSolutionIds.includes(x)) x = d\<close>: only a string can be a member.\<close>

definition checkedId :: "json \<Rightarrow> string \<Rightarrow> string" where
  "checkedId x d = (case x of JStr s \<Rightarrow> if s \<in> set validSolutionIds then s else d | _ \<Rightarrow> d)"

definition solutionOf :: "json option \<Rightarrow> string \<Rightarrow> string \<Rightarrow> string \<Rightarrow> solution" where
  "solutionOf slot d_id d_id' d_reason =
     \<lparr> sol_id = checkedId (orElse (optField slot ''id'') (JStr d_id)) d_id',
       reason = orElse (optField slot ''reason'') (JStr d_reason) \<rparr>"

definition confidenceOf :: "json option \<Rightarrow> jsnum" where
  "confidenceOf x =
     (case x of
        Some (JNum n) \<Rightarrow> if num_le (Fin 0) n \<and> num_le n (Fin 100) then n else Fin 85
      | Some (JStr s) \<Rightarrow>
          (case parseInt s of
             Some k \<Rightarrow> Fin (of_int (max 0 (min 100 k)))
           | None \<Rightarrow> Fin 85)
      | _ \<Rightarrow> Fin 85)"

text \<open>The object \<^verbatim>\<open>repaired\<close> at the \<^verbatim>\<open>return\<close> of
  \<^verbatim>\<open>validateAndRepairAnalysis\<close> (part_000, lines 230-269), for an argument that is not
  \<^verbatim>\<open>null\<close>: built field by field, then the empty list of problems and the ids outside
  the allow-list are replaced.\<close>

definition repairedAnalysis :: "json \<Rightarrow> analysis" where
  "repairedAnalysis data =
     (let problems =
            (case field data ''topProblems'' of
               Some (JArr xs) \<Rightarrow>
                 if length xs > 0 then filterProblems xs
                 else [''Unable to determine specific challenges'']
             | _ \<Rightarrow> [''Unable to determine specific challenges'']);
          rs = field data ''recommendedSolutions''
      in \<lparr>
           businessType = nonEmptyStringOr (field data ''businessType'') ''Craft Business'',
           detectedFocus = nonEmptyStringOr (field data ''detectedFocus'') ''Handmade Products'',
           topProblems =
             (if length problems = 0 then [''No specific challenges identified''] else problems),
           recommendedSolutions = \<lparr>
             primary = solutionOf (optField rs ''primary'') ''website'' ''website''
               ''A basic online presence is essential'',
             secondary = solutionOf (optField rs ''secondary'') ''whatsapp'' ''whatsapp''
               ''Direct customer communication'' \<rparr>,
           confidence = confidenceOf (field data ''confidence''),
           fallback = None \<rparr>)"

text \<open>Reading \<^verbatim>\<open>data.businessType\<close> throws a \<^verbatim>\<open>TypeError\<close> when \<^verbatim>\<open>data\<close> is
  \<^verbatim>\<open>null\<close>.\<close>

definition validateAndRepairAnalysis :: "json \<Rightarrow> error + analysis" where
  "validateAndRepairAnalysis data = (if data = JNull then Inl TypeError else Inr (repairedAnalysis data))"

definition createFallbackAnalysis :: "string \<Rightarrow> analysis" where
  "createFallbackAnalysis r =
     \<lparr> businessType = ''Craft Business'',
       detectedFocus = ''Handmade Products'',
       topProblems = [r, ''Limited online presence'', ''Need better customer reach''],
       recommendedSolutions = \<lparr>
         primary = \<lparr> sol_id = ''website'',
           reason = JStr ''A professional website builds credibility and showcases your products'' \<rparr>,
         secondary = \<lparr> sol_id = ''whatsapp'',
           reason = JStr ''WhatsApp Business enables direct customer communication and orders'' \<rparr> \<rparr>,
       confidence = Fin 75,
       fallback = Some True \<rparr>"

text \<open>What the normalizer enforces, field by field: the two names are non-empty strings,
  the problems are a non-empty list of non-empty strings, each solution id is one of the
  three allowed and each reason is truthy, the confidence is a number from 0 to 100.\<close>

definition validSolution :: "solution \<Rightarrow> bool" where
  "validSolution s \<longleftrightarrow> sol_id s \<in> set validSolutionIds \<and> truthy (reason s)"

definition schemaValid :: "analysis \<Rightarrow> bool" where
  "schemaValid a \<longleftrightarrow>
     businessType a \<noteq> [] \<and> detectedFocus a \<noteq> [] \<and>
     topProblems a \<noteq> [] \<and> list_all (\<lambda>p. p \<noteq> []) (topProblems a) \<and>
     validSolution (primary (recommendedSolutions a)) \<and>
     validSolution (secondary (recommendedSolutions a)) \<and>
     num_le (Fin 0) (confidence a) \<and> num_le (confidence a) (Fin 100)"

section \<open>JSON.parse\<close>

text \<open>
  A model of the built-in \<^verbatim>\<open>JSON.parse\<close> for the JSON grammar (ECMA-404): white space is
  SP, TAB, LF and CR; a value is an object, an array, a string, a number or one of
  \<^verbatim>\<open>true\<close>, \<^verbatim>\<open>false\<close>, \<^verbatim>\<open>null\<close>; nothing but white space may follow the
  value. \<^const>\<open>None\<close> is the \<^verbatim>\<open>SyntaxError\<close>. A repeated key keeps its first place
  and takes the later value. A number overflows to an infinity and underflows to zero as a
  double does. An escape \<^verbatim>\<open>\uXXXX\<close> above \<^verbatim>\<open>00FF\<close> names a code unit outside the
  texts covered here and is not accepted.

  The parser descends with a bound on its depth; twice the length of the text is more
  than any descent needs, since every second call consumes a character.
\<close>

definition isJsonWs :: "char \<Rightarrow> bool" where
  "isJsonWs c \<longleftrightarrow> c = CHR 0x20 \<or> c = CHR 0x09 \<or> c = CHR 0x0A \<or> c = CHR 0x0D"

definition pow10 :: "int \<Rightarrow> rat" where
  "pow10 e = (if 0 \<le> e then 10 ^ nat e else 1 / 10 ^ nat (- e))"

definition toDouble :: "rat \<Rightarrow> jsnum" where
  "toDouble v =
     (if 2 ^ 1024 - 2 ^ 970 \<le> v then PosInf
      else if v \<le> - (2 ^ 1024 - 2 ^ 970) then NegInf
      else if \<bar>v\<bar> \<le> 1 / 2 ^ 1075 then Fin 0
      else Fin v)"

text \<open>A decimal literal: digits, an optional fraction, an optional exponent. The result is
  the digits read, the value, and the rest of the text.\<close>

definition readFraction :: "string \<Rightarrow> (rat \<times> string) option" where
  "readFraction s =
     (if take 1 s = ''.'' then
        (let ds = takeWhile isDigit (drop 1 s) in
           if ds = [] then None
           else Some (of_nat (digitsVal 10 ds) / 10 ^ length ds, dropWhile isDigit (drop 1 s)))
      else Some (0, s))"

definition readExponent :: "string \<Rightarrow> (int \<times> string) option" where
  "readExponent s =
     (if take 1 s = ''e'' \<or> take 1 s = ''E'' then
        (let s1 = drop 1 s;
             neg = (take 1 s1 = ''-'');
             s2 = (if take 1 s1 = ''-'' \<or> take 1 s1 = ''+'' then drop 1 s1 else s1);
             ds = takeWhile isDigit s2
         in if ds = [] then None
            else Some ((if neg then -1 else 1) * int (digitsVal 10 ds), dropWhile isDigit s2))
      else Some (0, s))"

definition parseNumber :: "string \<Rightarrow> (jsnum \<times> string) option" where
  "parseNumber s =
     (let neg = (take 1 s = ''-'');
          s1 = (if neg then drop 1 s else s);
          ds = (if take 1 s1 = ''0'' then ''0'' else takeWhile isDigit s1);
          s2 = drop (length ds) s1
      in if ds = [] then None
         else
           (case readFraction s2 of
              None \<Rightarrow> None
            | Some (f, s3) \<Rightarrow>
                (case readExponent s3 of
                   None \<Rightarrow> None
                 | Some (e, s4) \<Rightarrow>
                     Some (toDouble ((if neg then -1 else 1) *
                             (of_nat (digitsVal 10 ds) + f) * pow10 e), s4))))"

definition escapeChar :: "char \<Rightarrow> char option" where
  "escapeChar e =
     (if e = CHR 0x22 then Some (CHR 0x22)
      else if e = CHR 0x5C then Some (CHR 0x5C)
      else if e = CHR ''/'' then Some (CHR ''/'')
      else if e = CHR ''b'' then Some (CHR 0x08)
      else if e = CHR ''f'' then Some (CHR 0x0C)
      else if e = CHR ''n'' then Some (CHR 0x0A)
      else if e = CHR ''r'' then Some (CHR 0x0D)
      else if e = CHR ''t'' then Some (CHR 0x09)
      else None)"

text \<open>The characters of a string after its opening quote, up to the closing quote.\<close>

fun parseStringBody :: "string \<Rightarrow> (string \<times> string) option" where
  "parseStringBody [] = None"
| "parseStringBody (c # cs) =
     (if c = CHR 0x22 then Some ([], cs)
      else if c = CHR 0x5C then
        (case cs of
           [] \<Rightarrow> None
         | e # r \<Rightarrow>
             if e = CHR ''u'' then
               (case r of
                  h1 # h2 # h3 # h4 # r' \<Rightarrow>
                    if list_all (isRadixDigit 16) [h1, h2, h3, h4]
                       \<and> digitsVal 16 [h1, h2, h3, h4] < 256
                    then map_option (\<lambda>(str, t). (char_of (digitsVal 16 [h1, h2, h3, h4]) # str, t))
                           (parseStringBody r')
                    else None
                | _ \<Rightarrow> None)
             else
               (case escapeChar e of
                  None \<Rightarrow> None
                | Some x \<Rightarrow> map_option (\<lambda>(str, t). (x # str, t)) (parseStringBody r)))
      else if (of_char c :: nat) < 32 then None
      else map_option (\<lambda>(str, t). (c # str, t)) (parseStringBody cs))"

text \<open>Setting a key of an object: in place when the key is there, at the end otherwise.\<close>

fun setKey :: "string \<Rightarrow> json \<Rightarrow> (string \<times> json) list \<Rightarrow> (string \<times> json) list" where
  "setKey k v [] = [(k, v)]"
| "setKey k v ((k', v') # kvs) = (if k = k' then (k, v) # kvs else (k', v') # setKey k v kvs)"

fun parseValue :: "nat \<Rightarrow> string \<Rightarrow> (json \<times> string) option"
  and parseElements :: "nat \<Rightarrow> json list \<Rightarrow> string \<Rightarrow> (json \<times> string) option"
  and parseMembers :: "nat \<Rightarrow> (string \<times> json) list \<Rightarrow> string \<Rightarrow> (json \<times> string) option"
where
  "parseValue 0 s = None"
| "parseValue (Suc n) s =
     (case dropWhile isJsonWs s of
        [] \<Rightarrow> None
      | c # cs \<Rightarrow>
          if c = CHR ''{'' then
            (if take 1 (dropWhile isJsonWs cs) = ''}''
             then Some (JObj [], drop 1 (dropWhile isJsonWs cs))
             else parseMembers n [] cs)
          else if c = CHR ''['' then
            (if take 1 (dropWhile isJsonWs cs) = '']''
             then Some (JArr [], drop 1 (dropWhile isJsonWs cs))
             else parseElements n [] cs)
          else if c = CHR 0x22 then
            map_option (\<lambda>(str, t). (JStr str, t)) (parseStringBody cs)
          else if take 4 (c # cs) = ''true'' then Some (JBool True, drop 4 (c # cs))
          else if take 5 (c # cs) = ''false'' then Some (JBool False, drop 5 (c # cs))
          else if take 4 (c # cs) = ''null'' then Some (JNull, drop 4 (c # cs))
          else map_option (\<lambda>(x, t). (JNum x, t)) (parseNumber (c # cs)))"
| "parseElements 0 acc s = None"
| "parseElements (Suc n) acc s =
     (case parseValue n s of
        None \<Rightarrow> None
      | Some (v, r) \<Rightarrow>
          (case dropWhile isJsonWs r of
             [] \<Rightarrow> None
           | c # r' \<Rightarrow>
               if c = CHR '','' then parseElements n (acc @ [v]) r'
               else if c = CHR '']'' then Some (JArr (acc @ [v]), r')
               else None))"
| "parseMembers 0 acc s = None"
| "parseMembers (Suc n) acc s =
     (case dropWhile isJsonWs s of
        [] \<Rightarrow> None
      | q # s1 \<Rightarrow>
          if q \<noteq> CHR 0x22 then None
          else
            (case parseStringBody s1 of
               None \<Rightarrow> None
             | Some (k, s2) \<Rightarrow>
                 (case dropWhile isJsonWs s2 of
                    [] \<Rightarrow> None
                  | c # s3 \<Rightarrow>
                      if c \<noteq> CHR '':'' then None
                      else
                        (case parseValue n s3 of
                           None \<Rightarrow> None
                         | Some (v, r) \<Rightarrow>
                             (case dropWhile isJsonWs r of
                                [] \<Rightarrow> None
                              | d # r' \<Rightarrow>
                                  if d = CHR '','' then parseMembers n (setKey k v acc) r'
                                  else if d = CHR ''}'' then Some (JObj (setKey k v acc), r')
                                  else None)))))"

definition JSON_parse :: "string \<Rightarrow> json option" where
  "JSON_parse s =
     (case parseValue (2 * length s + 2) s of
        None \<Rightarrow> None
      | Some (v, r) \<Rightarrow> if dropWhile isJsonWs r = [] then Some v else None)"

section \<open>Repair\<close>

text \<open>
  \<^verbatim>\<open>s.replace(re, template)\<close> with a global expression: the text is scanned from the left;
  at each position the expression is tried, a match is replaced and the scan goes on
  behind it, and where nothing matches the character is kept. The matcher gives the
  replacement and the text behind the match. A match of the three expressions below is
  never empty, so the text behind it is always shorter.
\<close>

function replaceAll :: "(string \<Rightarrow> (string \<times> string) option) \<Rightarrow> string \<Rightarrow> string" where
  "replaceAll m [] = []"
| "replaceAll m (c # cs) =
     (case m (c # cs) of
        Some (rep, rest) \<Rightarrow>
          if length rest < length (c # cs) then rep @ replaceAll m rest
          else c # replaceAll m cs
      | None \<Rightarrow> c # replaceAll m cs)"
  by pat_completeness auto
termination
  by (relation "measure (\<lambda>(m, s). length s)") auto

text \<open>\<^verbatim>\<open>/(\s*)(\w+)(\s*):/\<close> with the template \<^verbatim>\<open>$1"$2"$3:\<close> (part_000, line 201).
  The three runs are greedy and none can give a character back: the classes \<^verbatim>\<open>\s\<close>,
  \<^verbatim>\<open>\w\<close> and the colon are disjoint.\<close>

definition matchKey :: "string \<Rightarrow> (string \<times> string) option" where
  "matchKey s =
     (let g1 = takeWhile isSpace s;
          s1 = dropWhile isSpace s;
          g2 = takeWhile isWord s1;
          s2 = dropWhile isWord s1;
          g3 = takeWhile isSpace s2;
          s3 = dropWhile isSpace s2
      in if g2 \<noteq> [] \<and> take 1 s3 = '':''
         then Some (g1 @ [CHR 0x22] @ g2 @ [CHR 0x22] @ g3 @ '':'', drop 1 s3)
         else None)"

text \<open>\<^verbatim>\<open>/:\s*'([^']*)'/\<close> with the template \<^verbatim>\<open>: "$1"\<close> (line 203): a colon, white
  space, and a single-quoted text, which needs its closing quote.\<close>

definition matchSingleQuoted :: "string \<Rightarrow> (string \<times> string) option" where
  "matchSingleQuoted s =
     (if take 1 s = '':'' then
        (let s1 = dropWhile isSpace (drop 1 s) in
           if take 1 s1 = [CHR 0x27] then
             (let g1 = takeWhile (\<lambda>c. c \<noteq> CHR 0x27) (drop 1 s1);
                  s2 = dropWhile (\<lambda>c. c \<noteq> CHR 0x27) (drop 1 s1)
              in if s2 = [] then None
                 else Some ('': '' @ [CHR 0x22] @ g1 @ [CHR 0x22], drop 1 s2))
           else None)
      else None)"

text \<open>\<^verbatim>\<open>/,(\s*[}\]])/\<close> with the template \<^verbatim>\<open>$1\<close> (line 205): a comma before a closing
  brace or bracket, white space between them allowed, is dropped.\<close>

definition matchTrailingComma :: "string \<Rightarrow> (string \<times> string) option" where
  "matchTrailingComma s =
     (if take 1 s = '','' then
        (let g = takeWhile isSpace (drop 1 s);
             s1 = dropWhile isSpace (drop 1 s)
         in if take 1 s1 = ''}'' \<or> take 1 s1 = '']''
            then Some (g @ take 1 s1, drop 1 s1)
            else None)
      else None)"

text \<open>\<^verbatim>\<open>(s.match(/{/g) || []).length\<close>.\<close>

definition countChar :: "char \<Rightarrow> string \<Rightarrow> nat" where
  "countChar c s = length (filter (\<lambda>x. x = c) s)"

text \<open>Step 3 of \<^verbatim>\<open>parseAIResponse\<close> up to the second \<^verbatim>\<open>JSON.parse\<close> (lines 199-214).\<close>

definition quoteKeys :: "string \<Rightarrow> string" where
  "quoteKeys s = replaceAll matchKey s"

definition fixSingleQuotes :: "string \<Rightarrow> string" where
  "fixSingleQuotes s = replaceAll matchSingleQuoted s"

definition removeTrailingCommas :: "string \<Rightarrow> string" where
  "removeTrailingCommas s = replaceAll matchTrailingComma s"

definition balanceBraces :: "string \<Rightarrow> string" where
  "balanceBraces repaired =
     (let openBraces = countChar CHR ''{'' repaired;
          closeBraces = countChar CHR ''}'' repaired
      in if openBraces > closeBraces
         then repaired @ replicate (openBraces - closeBraces) CHR ''}''
         else repaired)"

definition repairJson :: "string \<Rightarrow> string" where
  "repairJson jsonStr = balanceBraces (removeTrailingCommas (fixSingleQuotes (quoteKeys jsonStr)))"

section \<open>parseAIResponse\<close>

text \<open>The body of each of the two \<^verbatim>\<open>try\<close> blocks: \<^verbatim>\<open>JSON.parse\<close>, then
  \<^verbatim>\<open>validateAndRepairAnalysis\<close>; \<^const>\<open>None\<close> when either throws.\<close>

definition tryParse :: "string \<Rightarrow> analysis option" where
  "tryParse t =
     (case JSON_parse t of
        None \<Rightarrow> None
      | Some parsed \<Rightarrow>
          (case validateAndRepairAnalysis parsed of Inl e \<Rightarrow> None | Inr a \<Rightarrow> Some a))"

text \<open>\<^verbatim>\<open>parseAIResponse\<close> (part_000, lines 165-224). The argument is a string, so the
  guard \<^verbatim>\<open>!rawText || typeof rawText !== 'string'\<close> holds for the empty string only.\<close>

definition parseAIResponse :: "string \<Rightarrow> error + analysis" where
  "parseAIResponse rawText =
     (if rawText = [] then Inl InvalidResponse
      else
        (case extractJson rawText of
           Inl e \<Rightarrow> Inl e
         | Inr jsonStr \<Rightarrow>
             (case tryParse jsonStr of
                Some a \<Rightarrow> Inr a
              | None \<Rightarrow>
                  (case tryParse (repairJson jsonStr) of
                     Some a \<Rightarrow> Inr a
                   | None \<Rightarrow> Inr (createFallbackAnalysis ''JSON parsing failed'')))))"

text \<open>The id the input asks for in a slot of \<^verbatim>\<open>recommendedSolutions\<close>:
  \<^verbatim>\<open>data.recommendedSolutions?.primary?.id\<close>.\<close>

definition requestedId :: "json \<Rightarrow> string \<Rightarrow> json option" where
  "requestedId data slot = optField (optField (field data ''recommendedSolutions'') slot) ''id''"

text \<open>An analysis record as the JSON object with the same fields.\<close>

definition solution_to_json :: "solution \<Rightarrow> json" where
  "solution_to_json s = JObj [(''id'', JStr (sol_id s)), (''reason'', reason s)]"

definition analysis_to_json :: "analysis \<Rightarrow> json" where
  "analysis_to_json a =
     JObj ([(''businessType'', JStr (businessType a)),
            (''detectedFocus'', JStr (detectedFocus a)),
            (''topProblems'', JArr (map JStr (topProblems a))),
            (''recommendedSolutions'',
               JObj [(''primary'', solution_to_json (primary (recommendedSolutions a))),
                     (''secondary'', solution_to_json (secondary (recommendedSolutions a)))]),
            (''confidence'', JNum (confidence a))]
           @ (case fallback a of None \<Rightarrow> [] | Some b \<Rightarrow> [(''fallback'', JBool b)]))"

section \<open>Number\<close>

text \<open>
  \<^verbatim>\<open>Number(s)\<close> on a string: white space is trimmed; the empty text is 0; then a hexadecimal,
  octal or binary integer with its prefix and no sign, or an optionally signed
  \<^verbatim>\<open>Infinity\<close> or decimal literal (digits, an optional fraction, an optional exponent; a
  digit before or after the point is required). Anything else is not-a-number.
\<close>

definition prefixedInteger :: "nat \<Rightarrow> string \<Rightarrow> jsnum" where
  "prefixedInteger R ds =
     (if ds \<noteq> [] \<and> list_all (isRadixDigit R) ds then toDouble (of_nat (digitsVal R ds)) else NaN)"

definition decimalLiteral :: "string \<Rightarrow> rat option" where
  "decimalLiteral s =
     (let ip = takeWhile isDigit s;
          r1 = dropWhile isDigit s;
          point = (take 1 r1 = ''.'');
          fp = (if point then takeWhile isDigit (drop 1 r1) else []);
          r2 = (if point then dropWhile isDigit (drop 1 r1) else r1)
      in if ip = [] \<and> fp = [] then None
         else
           (case readExponent r2 of
              None \<Rightarrow> None
            | Some (e, r3) \<Rightarrow>
                if r3 \<noteq> [] then None
                else Some ((of_nat (digitsVal 10 ip) + of_nat (digitsVal 10 fp) / 10 ^ length fp)
                             * pow10 e)))"

definition StringToNumber :: "string \<Rightarrow> jsnum" where
  "StringToNumber str =
     (let s = trim str in
        if s = [] then Fin 0
        else if take 2 s = ''0x'' \<or> take 2 s = ''0X'' then prefixedInteger 16 (drop 2 s)
        else if take 2 s = ''0o'' \<or> take 2 s = ''0O'' then prefixedInteger 8 (drop 2 s)
        else if take 2 s = ''0b'' \<or> take 2 s = ''0B'' then prefixedInteger 2 (drop 2 s)
        else
          (let neg = (take 1 s = ''-'');
               s1 = (if take 1 s = ''-'' \<or> take 1 s = ''+'' then drop 1 s else s)
           in if s1 = ''Infinity'' then (if neg then NegInf else PosInf)
              else
                (case decimalLiteral s1 of
                   None \<Rightarrow> NaN
                 | Some v \<Rightarrow> toDouble ((if neg then -1 else 1) * v))))"

text \<open>
  \<^verbatim>\<open>Number(v)\<close> on a value: \<^verbatim>\<open>null\<close> is 0, a boolean is 0 or 1, an object is
  not-a-number. An array is converted through its text, the texts of its elements joined by
  commas: the empty array is 0, an array of one element is what the text of that element
  converts to (the empty text for \<^verbatim>\<open>null\<close>, the number itself for a number), and a
  longer array is not-a-number because of the comma.
\<close>

fun toNumber :: "json \<Rightarrow> jsnum" where
  "toNumber JNull = Fin 0"
| "toNumber (JBool b) = (if b then Fin 1 else Fin 0)"
| "toNumber (JNum n) = n"
| "toNumber (JStr s) = StringToNumber s"
| "toNumber (JArr []) = Fin 0"
| "toNumber (JArr [JNull]) = Fin 0"
| "toNumber (JArr [JNum n]) = n"
| "toNumber (JArr [JStr s]) = StringToNumber s"
| "toNumber (JArr [JArr ys]) = toNumber (JArr ys)"
| "toNumber (JArr xs) = NaN"
| "toNumber (JObj kvs) = NaN"

text \<open>\<^verbatim>\<open>Number(x) || d\<close>, where \<^verbatim>\<open>x\<close> may be \<^verbatim>\<open>undefined\<close>: zero and not-a-number
  give the default.\<close>

definition Number :: "json option \<Rightarrow> jsnum" where
  "Number x = (case x of None \<Rightarrow> NaN | Some v \<Rightarrow> toNumber v)"

definition numberOr :: "json option \<Rightarrow> jsnum \<Rightarrow> jsnum" where
  "numberOr x d = (let n = Number x in if n = NaN \<or> n = Fin 0 then d else n)"

text \<open>\<^verbatim>\<open>n * 1.5\<close>: an infinity stays, and a finite product overflows as a double does.\<close>

fun times1_5 :: "jsnum \<Rightarrow> jsnum" where
  "times1_5 (Fin r) = toDouble (r * 3 / 2)"
| "times1_5 n = n"

section \<open>The quotation\<close>

text \<open>The record \<^verbatim>\<open>validateQuotation\<close> builds (quotationController.js, lines 258-298).
  \<^verbatim>\<open>marketComparison\<close>, \<^verbatim>\<open>notes\<close> and \<^verbatim>\<open>fallback\<close> are passed through when
  truthy, whatever their type.\<close>

record price_range =
  range_min :: jsnum
  range_max :: jsnum

record price_breakdown =
  materials :: jsnum
  labor :: jsnum
  artisanSkill :: jsnum
  profit :: jsnum

record customization_pricing =
  colorVariation :: jsnum
  sizeIncrease :: jsnum
  personalEngraving :: jsnum
  rushDelivery :: jsnum

record bulk_discounts =
  quantity5 :: jsnum
  quantity10 :: jsnum
  quantity25 :: jsnum

record quotation =
  basePrice :: jsnum
  priceRange :: price_range
  breakdown :: price_breakdown
  customizationPricing :: customization_pricing
  marketComparison :: json
  bulkDiscounts :: bulk_discounts
  quote_confidence :: jsnum
  quote_notes :: json
  quote_fallback :: json

definition defaultMarketComparison :: json where
  "defaultMarketComparison =
     JObj [(''localMarket'', JStr ''competitive pricing''),
           (''onlineMarket'', JStr ''fair for handmade quality''),
           (''premiumJustification'', JStr ''authentic craftsmanship'')]"

text \<open>The object \<^verbatim>\<open>validated\<close> as first built (lines 259-290).\<close>

definition validated :: "json \<Rightarrow> quotation" where
  "validated q =
     (let pr = field q ''priceRange'';
          bd = field q ''breakdown'';
          cp = field q ''customizationPricing'';
          bk = field q ''bulkDiscounts''
      in \<lparr>
           basePrice = Math_max (Fin 50) (Math_min (Fin 50000) (numberOr (field q ''basePrice'') (Fin 500))),
           priceRange = \<lparr>
             range_min = Math_max (Fin 50) (numberOr (optField pr ''min'') (Fin 400)),
             range_max = Math_min (Fin 50000) (numberOr (optField pr ''max'') (Fin 1500)) \<rparr>,
           breakdown = \<lparr>
             materials = Math_max (Fin 0) (numberOr (optField bd ''materials'') (Fin 0)),
             labor = Math_max (Fin 0) (numberOr (optField bd ''labor'') (Fin 0)),
             artisanSkill = Math_max (Fin 0) (numberOr (optField bd ''artisanSkill'') (Fin 0)),
             profit = Math_max (Fin 0) (numberOr (optField bd ''profit'') (Fin 0)) \<rparr>,
           customizationPricing = \<lparr>
             colorVariation = numberOr (optField cp ''colorVariation'') (Fin 50),
             sizeIncrease = numberOr (optField cp ''sizeIncrease'') (Fin 100),
             personalEngraving = numberOr (optField cp ''personalEngraving'') (Fin 150),
             rushDelivery = numberOr (optField cp ''rushDelivery'') (Fin 200) \<rparr>,
           marketComparison = orElse (field q ''marketComparison'') defaultMarketComparison,
           bulkDiscounts = \<lparr>
             quantity5 = Math_max (Fin 0) (Math_min (Fin 50) (numberOr (optField bk ''quantity5'') (Fin 10))),
             quantity10 = Math_max (Fin 0) (Math_min (Fin 50) (numberOr (optField bk ''quantity10'') (Fin 15))),
             quantity25 = Math_max (Fin 0) (Math_min (Fin 50) (numberOr (optField bk ''quantity25'') (Fin 25))) \<rparr>,
           quote_confidence =
             Math_max (Fin 50) (Math_min (Fin 100) (numberOr (field q ''confidence'') (Fin 80))),
           quote_notes = orElse (field q ''notes'') (JStr ''AI-generated pricing analysis''),
           quote_fallback = orElse (field q ''fallback'') (JBool False) \<rparr>)"

text \<open>\<^verbatim>\<open>// Ensure min < max\<close> (lines 292-295).\<close>

definition ensureMinMax :: "quotation \<Rightarrow> quotation" where
  "ensureMinMax v =
     (if num_le (range_max (priceRange v)) (range_min (priceRange v))
      then v\<lparr> priceRange := (priceRange v)\<lparr> range_max := times1_5 (range_min (priceRange v)) \<rparr> \<rparr>
      else v)"

text \<open>Reading \<^verbatim>\<open>quotation.basePrice\<close> throws when the argument is \<^verbatim>\<open>null\<close>; the caller
  passes the parsed object or the template, never \<^verbatim>\<open>null\<close>.\<close>

definition validateQuotation :: "json \<Rightarrow> error + quotation" where
  "validateQuotation q = (if q = JNull then Inl TypeError else Inr (ensureMinMax (validated q)))"

text \<open>A quotation record as the JSON object with the same fields.\<close>

definition quotation_to_json :: "quotation \<Rightarrow> json" where
  "quotation_to_json v =
     JObj [(''basePrice'', JNum (basePrice v)),
           (''priceRange'', JObj [(''min'', JNum (range_min (priceRange v))),
                                  (''max'', JNum (range_max (priceRange v)))]),
           (''breakdown'', JObj [(''materials'', JNum (materials (breakdown v))),
                                 (''labor'', JNum (labor (breakdown v))),
                                 (''artisanSkill'', JNum (artisanSkill (breakdown v))),
                                 (''profit'', JNum (profit (breakdown v)))]),
           (''customizationPricing'',
              JObj [(''colorVariation'', JNum (colorVariation (customizationPricing v))),
                    (''sizeIncrease'', JNum (sizeIncrease (customizationPricing v))),
                    (''personalEngraving'', JNum (personalEngraving (customizationPricing v))),
                    (''rushDelivery'', JNum (rushDelivery (customizationPricing v)))]),
           (''marketComparison'', marketComparison v),
           (''bulkDiscounts'', JObj [(''quantity5'', JNum (quantity5 (bulkDiscounts v))),
                                     (''quantity10'', JNum (quantity10 (bulkDiscounts v))),
                                     (''quantity25'', JNum (quantity25 (bulkDiscounts v)))]),
           (''confidence'', JNum (quote_confidence v)),
           (''notes'', quote_notes v),
           (''fallback'', quote_fallback v)]"

text \<open>The domain of each field of a quotation, as the clamps of \<^verbatim>\<open>validateQuotation\<close>
  give it: the base price in \<open>[50, 50000]\<close>, the range with a minimum of at least 50, a
  maximum of at most 50000 and the minimum below the maximum, the parts of the breakdown
  not negative, the customization prices numbers, the discounts in \<open>[0, 50]\<close>, the
  confidence in \<open>[50, 100]\<close>, the market comparison an object, the notes a string and
  the fallback marker a boolean.\<close>

definition inRange :: "rat \<Rightarrow> rat \<Rightarrow> jsnum \<Rightarrow> bool" where
  "inRange lo hi n \<longleftrightarrow> num_le (Fin lo) n \<and> num_le n (Fin hi)"

definition isObject :: "json \<Rightarrow> bool" where
  "isObject v = (case v of JObj kvs \<Rightarrow> True | _ \<Rightarrow> False)"

definition isString :: "json \<Rightarrow> bool" where
  "isString v = (case v of JStr s \<Rightarrow> True | _ \<Rightarrow> False)"

definition isBoolean :: "json \<Rightarrow> bool" where
  "isBoolean v = (case v of JBool b \<Rightarrow> True | _ \<Rightarrow> False)"

definition validQuotation :: "quotation \<Rightarrow> bool" where
  "validQuotation v \<longleftrightarrow>
     inRange 50 50000 (basePrice v) \<and>
     num_le (Fin 50) (range_min (priceRange v)) \<and>
     num_le (range_max (priceRange v)) (Fin 50000) \<and>
     num_less (range_min (priceRange v)) (range_max (priceRange v)) \<and>
     num_le (Fin 0) (materials (breakdown v)) \<and>
     num_le (Fin 0) (labor (breakdown v)) \<and>
     num_le (Fin 0) (artisanSkill (breakdown v)) \<and>
     num_le (Fin 0) (profit (breakdown v)) \<and>
     colorVariation (customizationPricing v) \<noteq> NaN \<and>
     sizeIncrease (customizationPricing v) \<noteq> NaN \<and>
     personalEngraving (customizationPricing v) \<noteq> NaN \<and>
     rushDelivery (customizationPricing v) \<noteq> NaN \<and>
     isObject (marketComparison v) \<and>
     inRange 0 50 (quantity5 (bulkDiscounts v)) \<and>
     inRange 0 50 (quantity10 (bulkDiscounts v)) \<and>
     inRange 0 50 (quantity25 (bulkDiscounts v)) \<and>
     inRange 50 100 (quote_confidence v) \<and>
     isString (quote_notes v) \<and>
     isBoolean (quote_fallback v)"

text \<open>The fields that \<^verbatim>\<open>||\<close> replaces by a default when they are zero or empty.\<close>

definition noFalsyField :: "quotation \<Rightarrow> bool" where
  "noFalsyField v \<longleftrightarrow>
     colorVariation (customizationPricing v) \<noteq> Fin 0 \<and>
     sizeIncrease (customizationPricing v) \<noteq> Fin 0 \<and>
     personalEngraving (customizationPricing v) \<noteq> Fin 0 \<and>
     rushDelivery (customizationPricing v) \<noteq> Fin 0 \<and>
     quantity5 (bulkDiscounts v) \<noteq> Fin 0 \<and>
     quantity10 (bulkDiscounts v) \<noteq> Fin 0 \<and>
     quantity25 (bulkDiscounts v) \<noteq> Fin 0 \<and>
     quote_notes v \<noteq> JStr []"

text \<open>The quotation the pricing prompt shows the model (lines 81-111), validated.\<close>

definition promptQuotation :: quotation where
  "promptQuotation =
     \<lparr> basePrice = Fin 850,
       priceRange = \<lparr> range_min = Fin 700, range_max = Fin 1200 \<rparr>,
       breakdown = \<lparr> materials = Fin 200, labor = Fin 400, artisanSkill = Fin 150, profit = Fin 100 \<rparr>,
       customizationPricing = \<lparr> colorVariation = Fin 50, sizeIncrease = Fin 100,
         personalEngraving = Fin 150, rushDelivery = Fin 200 \<rparr>,
       marketComparison =
         JObj [(''localMarket'', JStr ''15-20% below average local prices''),
               (''onlineMarket'', JStr ''competitive with handmade category''),
               (''premiumJustification'',
                  JStr ''authentic traditional techniques + quality materials'')],
       bulkDiscounts = \<lparr> quantity5 = Fin 10, quantity10 = Fin 18, quantity25 = Fin 25 \<rparr>,
       quote_confidence = Fin 87,
       quote_notes = JStr ''Pricing based on Indian handcraft market analysis and material costs'',
       quote_fallback = JBool False \<rparr>"

text \<open>The same quotation with no discount on five pieces.\<close>

definition noDiscountQuotation :: quotation where
  "noDiscountQuotation =
     promptQuotation\<lparr> bulkDiscounts :=
       \<lparr> quantity5 = Fin 0, quantity10 = Fin 18, quantity25 = Fin 25 \<rparr> \<rparr>"

section \<open>transcribeAudio\<close>

text \<open>
  \<^verbatim>\<open>transcribeAudio\<close> (part_000, lines 74-160). The speech client is a collaborator: for
  an encoding and a sample rate it rejects with an error, of which the message is kept, or
  it answers with results, each the list of the transcripts of its alternatives (no
  results when \<^verbatim>\<open>response.results\<close> is missing). The calls made are logged, so that
  their number and order can be stated. The confidence figure of a successful
  transcription is an average of floating-point numbers and is left out of the result.
\<close>

datatype encoding = WEBM_OPUS | MP3 | WAV | OGG_OPUS

datatype upstream = Rejected string | Response "string list list"

type_synonym speech_client = "encoding \<Rightarrow> nat \<Rightarrow> upstream"

datatype transcription =
    Transcribed string encoding
  | TranscriptionFailed string

definition encodingConfigs :: "(encoding \<times> nat) list" where
  "encodingConfigs = [(WEBM_OPUS, 48000), (MP3, 44100), (WAV, 16000), (OGG_OPUS, 48000)]"

text \<open>\<^verbatim>\<open>xs.join(" ")\<close>.\<close>

fun joinSpace :: "string list \<Rightarrow> string" where
  "joinSpace [] = []"
| "joinSpace [x] = x"
| "joinSpace (x # xs) = x @ '' '' @ joinSpace xs"

text \<open>The body of the \<^verbatim>\<open>try\<close> block for one encoding, given what the client did:
  a transcription of more than 10 characters, nothing viable, or an error caught (the
  client's, or the \<^verbatim>\<open>TypeError\<close> of reading \<^verbatim>\<open>alternatives[0].transcript\<close> in a
  result without alternatives).\<close>

datatype attempt = Viable string | NotViable | Threw string

definition tryEncoding :: "upstream \<Rightarrow> attempt" where
  "tryEncoding u =
     (case u of
        Rejected msg \<Rightarrow> Threw msg
      | Response results \<Rightarrow>
          if length results > 0 then
            (if list_ex (\<lambda>alternatives. alternatives = []) results
             then Threw ''Cannot read properties of undefined (reading 'transcript')''
             else
               (let transcription = trim (joinSpace (map hd results))
                in if length transcription > 10 then Viable transcription else NotViable))
          else NotViable)"

text \<open>\<^verbatim>\<open>lastError?.message || "Unknown"\<close>.\<close>

definition lastErrorText :: "string option \<Rightarrow> string" where
  "lastErrorText lastError =
     (case lastError of Some msg \<Rightarrow> if msg \<noteq> [] then msg else ''Unknown'' | None \<Rightarrow> ''Unknown'')"

text \<open>The \<^verbatim>\<open>for\<close> loop over the configurations still to try, with the last error and the
  log of calls so far.\<close>

fun tryAll ::
  "speech_client \<Rightarrow> (encoding \<times> nat) list \<Rightarrow> string option \<Rightarrow> encoding list
     \<Rightarrow> transcription \<times> encoding list" where
  "tryAll client [] lastError calls =
     (TranscriptionFailed
        (''Speech recognition failed with all formats. Last error: '' @ lastErrorText lastError),
      calls)"
| "tryAll client ((enc, rate) # rest) lastError calls =
     (case tryEncoding (client enc rate) of
        Viable transcription \<Rightarrow> (Transcribed transcription enc, calls @ [enc])
      | NotViable \<Rightarrow> tryAll client rest lastError (calls @ [enc])
      | Threw msg \<Rightarrow> tryAll client rest (Some msg) (calls @ [enc]))"

datatype service_error = ServiceUnavailable

definition transcribeAudio ::
  "speech_client option \<Rightarrow> service_error + transcription \<times> encoding list" where
  "transcribeAudio speechClient =
     (case speechClient of
        None \<Rightarrow> Inl ServiceUnavailable
      | Some client \<Rightarrow> Inr (tryAll client encodingConfigs None []))"

text \<open>The words of the specification, for comparison: an encoding is viable when the
  attempt with it gives a transcript of more than 10 characters; the error an encoding
  leaves behind, if any.\<close>

definition viable :: "speech_client \<Rightarrow> encoding \<times> nat \<Rightarrow> bool" where
  "viable client cfg = (case tryEncoding (client (fst cfg) (snd cfg)) of Viable t \<Rightarrow> True | _ \<Rightarrow> False)"

definition transcriptOf :: "speech_client \<Rightarrow> encoding \<times> nat \<Rightarrow> string" where
  "transcriptOf client cfg =
     (case tryEncoding (client (fst cfg) (snd cfg)) of Viable t \<Rightarrow> t | _ \<Rightarrow> [])"

definition errorsOf :: "speech_client \<Rightarrow> (encoding \<times> nat) list \<Rightarrow> string list" where
  "errorsOf client cfgs =
     concat (map (\<lambda>cfg. case tryEncoding (client (fst cfg) (snd cfg)) of Threw m \<Rightarrow> [m] | _ \<Rightarrow> []) cfgs)"

definition lastOf :: "string list \<Rightarrow> string option" where
  "lastOf es = (if es = [] then None else Some (last es))"

section \<open>sendWhatsAppMessage\<close>

text \<open>
  The production branch of \<^verbatim>\<open>sendWhatsAppMessage\<close> (api.js, lines 678-762), after the
  message has been generated. A call of \<^verbatim>\<open>axios.post\<close> throws an error, which carries
  the body of the response when there was one and a message, or it answers with a body.
  What the handler does is logged: the posts with the number of the attempt and the waits
  with their milliseconds. The response sent is its status code and its JSON body.
\<close>

record api_error =
  response_data :: "json option"
  error_message :: string


datatype effect = Post nat | Sleep nat














text \<open>The retry loop (lines 704-743) and the fallback behind it. The state is the last
  error and the log. An answer whose message id cannot be read throws inside the
  \<^verbatim>\<open>try\<close> block and counts as a failed attempt.\<close>

record send_state =
  lastError :: "api_error option"
  effects :: "effect list"









section \<open>Sample collaborators\<close>

text \<open>A speech client that rejects WEBM_OPUS and answers MP3 with two results, one that
  rejects every encoding, and a WhatsApp endpoint that times out on every post.\<close>

definition mp3Client :: speech_client where
  "mp3Client enc rate =
     (if enc = WEBM_OPUS then Rejected ''bad encoding''
      else if enc = MP3 then Response [[''we sell pottery'', ''we sell poetry''], [''and textiles '']]
      else Response [])"

definition deafClient :: speech_client where
  "deafClient enc rate = (if enc = WAV then Rejected ''no speech'' else Response [[''hm'']])"


section \<open>Properties of extraction\<close>









text \<open>The boundary cases the specification lists: plain prose has no span, and a fenced
  block gives the object in the fence.\<close>

lemma extractJson_fenced:
  \<open>extractJson (tick # tick # tick # ''json {"a":1} '' @ [tick, tick, tick]) = Inr ''{"a":1}''\<close>
  by (simp add: extractJson_def stripFence_def codeBlockMatch_def tick_def isSpace_def
      trimEnd_def substring_def Let_def)

section \<open>Properties of the normalizer\<close>

lemma nonEmptyStringOr_nonempty: "d \<noteq> [] \<Longrightarrow> nonEmptyStringOr x d \<noteq> []"
  by (auto simp: nonEmptyStringOr_def split: option.splits json.splits)

lemma filterProblems_nonempty: "list_all (\<lambda>p. p \<noteq> []) (filterProblems xs)"
  by (induction xs rule: filterProblems.induct) auto

lemma filterProblems_strings:
  "list_all (\<lambda>p. p \<noteq> []) ps \<Longrightarrow> filterProblems (map JStr ps) = ps"
  by (induction ps) auto

lemma truthy_orElse: "truthy d \<Longrightarrow> truthy (orElse x d)"
  by (auto simp: orElse_def split: option.splits)

lemma orElse_truthy: "truthy v \<Longrightarrow> orElse (Some v) d = v"
  by (simp add: orElse_def)

lemma checkedId_member: "d \<in> set validSolutionIds \<Longrightarrow> checkedId x d \<in> set validSolutionIds"
  by (auto simp: checkedId_def split: json.splits)

lemma validSolution_solutionOf:
  "d' \<in> set validSolutionIds \<Longrightarrow> r \<noteq> [] \<Longrightarrow> validSolution (solutionOf slot d d' r)"
  by (simp add: validSolution_def solutionOf_def checkedId_member truthy_orElse)

lemma confidenceOf_range:
  "num_le (Fin 0) (confidenceOf x) \<and> num_le (confidenceOf x) (Fin 100)"
  by (auto simp: confidenceOf_def split: option.splits json.splits)

lemma validate_total: "data \<noteq> JNull \<Longrightarrow> \<exists>a. validateAndRepairAnalysis data = Inr a"
  by (simp add: validateAndRepairAnalysis_def)

lemma repaired_valid: "schemaValid (repairedAnalysis data)"
proof -
  have ids: "''website'' \<in> set validSolutionIds" "''whatsapp'' \<in> set validSolutionIds"
    by (simp_all add: validSolutionIds_def)
  define problems where "problems =
     (case field data ''topProblems'' of
        Some (JArr xs) \<Rightarrow>
          if length xs > 0 then filterProblems xs
          else [''Unable to determine specific challenges'']
      | _ \<Rightarrow> [''Unable to determine specific challenges''])"
  have all: "list_all (\<lambda>p. p \<noteq> []) problems"
    by (auto simp: problems_def filterProblems_nonempty split: option.splits json.splits)
  show ?thesis
    using all
    by (simp add: schemaValid_def repairedAnalysis_def Let_def problems_def [symmetric]
        nonEmptyStringOr_nonempty validSolution_solutionOf ids confidenceOf_range)
qed

lemma validate_valid: "validateAndRepairAnalysis data = Inr a \<Longrightarrow> schemaValid a"
  by (auto simp: validateAndRepairAnalysis_def repaired_valid split: if_splits)

lemma tryParse_valid: "tryParse t = Some a \<Longrightarrow> schemaValid a"
  by (auto simp: tryParse_def validate_valid split: option.splits sum.splits)

lemma fallback_valid: "schemaValid (createFallbackAnalysis r) \<longleftrightarrow> r \<noteq> []"
  by (auto simp: schemaValid_def createFallbackAnalysis_def validSolution_def
      validSolutionIds_def)

lemma extractJson_cases: "extractJson s = Inl NoJsonFound \<or> (\<exists>span. extractJson s = Inr span)"
  by (simp add: extractJson_def Let_def)

section \<open>Evaluation on concrete texts\<close>

lemmas parse_numeral =
  parseValue.simps(2) [where n = "pred_numeral k", folded numeral_eq_Suc]
  parseElements.simps(2) [where n = "pred_numeral k", folded numeral_eq_Suc]
  parseMembers.simps(2) [where n = "pred_numeral k", folded numeral_eq_Suc]
  for k

lemmas text_eval = isSpace_def isWord_def isDigit_def trim_def trimEnd_def Let_def

lemmas digits_eval = digitsVal_def digitOf_def isRadixDigit_def readExponent_def pow10_def
  toDouble_def

lemmas json_eval = JSON_parse_def isJsonWs_def parseNumber_def readFraction_def escapeChar_def
  parse_numeral digits_eval text_eval

lemmas repair_eval = repairJson_def quoteKeys_def fixSingleQuotes_def removeTrailingCommas_def
  balanceBraces_def countChar_def matchKey_def matchSingleQuoted_def matchTrailingComma_def
  text_eval

lemmas extract_eval = extractJson_def stripFence_def codeBlockMatch_def tick_def substring_def
  text_eval

section \<open>Properties of parseAIResponse\<close>

text \<open>
  C1, as the code has it. \<^verbatim>\<open>parseAIResponse\<close> throws on the empty string (its guard)
  and when extraction finds no span (the second \<^verbatim>\<open>throw\<close>); its caller
  \<^verbatim>\<open>analyzeTranscriptWithVertexAI\<close> catches both. On every other text it returns a
  record that satisfies \<^const>\<open>schemaValid\<close>: the normalized parse of the span, the
  normalized parse of the repaired span, or the fallback record.
\<close>

theorem parseAIResponse_total:
  "(s = [] \<longrightarrow> parseAIResponse s = Inl InvalidResponse) \<and>
   (s \<noteq> [] \<and> extractJson s = Inl NoJsonFound \<longrightarrow> parseAIResponse s = Inl NoJsonFound) \<and>
   (s \<noteq> [] \<and> extractJson s \<noteq> Inl NoJsonFound \<longrightarrow>
      (\<exists>a. parseAIResponse s = Inr a \<and> schemaValid a))"
proof -
  have "\<exists>a. parseAIResponse s = Inr a \<and> schemaValid a"
    if "s \<noteq> []" and "extractJson s = Inr span" for span
    using that
    by (auto simp: parseAIResponse_def tryParse_valid fallback_valid split: option.splits)
  then show ?thesis
    using extractJson_cases [of s] by (auto simp: parseAIResponse_def)
qed

lemma extractJson_trailing_comma: \<open>extractJson ''{"a":1,}'' = Inr ''{"a":1,}''\<close>
  by (simp add: extract_eval)

theorem parseAIResponse_total_witness:
  \<open>parseAIResponse [] = Inl InvalidResponse \<and>
   (\<exists>a. parseAIResponse ''{"a":1,}'' = Inr a \<and> schemaValid a)\<close>
  using parseAIResponse_total [of \<open>[]\<close>] parseAIResponse_total [of \<open>''{"a":1,}''\<close>]
  by (simp add: extractJson_trailing_comma)

text \<open>Three of the inputs the specification names throw: the empty string, pure prose,
  and JSON cut off before its closing brace.\<close>

theorem parseAIResponse_throws:
  \<open>parseAIResponse '''' = Inl InvalidResponse \<and>
   parseAIResponse ''pure prose'' = Inl NoJsonFound \<and>
   parseAIResponse ''{"businessType": "Pottery"'' = Inl NoJsonFound\<close>
  by (simp add: parseAIResponse_def extract_eval)

section \<open>Properties of repair\<close>

lemma length_dropWhile_le': "length (dropWhile P xs) \<le> length xs"
  by (induction xs) auto

lemma matchKey_shorter: "matchKey s = Some (rep, rest) \<Longrightarrow> length rest < length s"
proof -
  assume m: "matchKey s = Some (rep, rest)"
  define s3 where "s3 = dropWhile isSpace (dropWhile isWord (dropWhile isSpace s))"
  have le: "length s3 \<le> length s"
    unfolding s3_def
    by (meson length_dropWhile_le' order_trans)
  from m have "take 1 s3 = '':''" "rest = drop 1 s3"
    by (auto simp: matchKey_def Let_def s3_def split: if_splits)
  then have "length rest < length s3"
    by (cases s3) auto
  with le show ?thesis by simp
qed

lemma matchSingleQuoted_shorter:
  "matchSingleQuoted s = Some (rep, rest) \<Longrightarrow> length rest < length s"
proof -
  assume m: "matchSingleQuoted s = Some (rep, rest)"
  define s1 where "s1 = dropWhile isSpace (drop 1 s)"
  define s2 where "s2 = dropWhile (\<lambda>c. c \<noteq> CHR 0x27) (drop 1 s1)"
  have "length s2 \<le> length (drop 1 s1)"
    unfolding s2_def by (rule length_dropWhile_le')
  moreover have "length s1 \<le> length (drop 1 s)"
    unfolding s1_def by (rule length_dropWhile_le')
  ultimately have le: "length s2 \<le> length s" by simp
  from m have "s2 \<noteq> []" "rest = drop 1 s2"
    by (auto simp: matchSingleQuoted_def Let_def s1_def s2_def split: if_splits)
  then have "length rest < length s2"
    by (cases s2) auto
  with le show ?thesis by simp
qed

lemma matchTrailingComma_shorter:
  "matchTrailingComma s = Some (rep, rest) \<Longrightarrow> length rest < length s"
proof -
  assume m: "matchTrailingComma s = Some (rep, rest)"
  define s1 where "s1 = dropWhile isSpace (drop 1 s)"
  have le: "length s1 \<le> length s"
    using length_dropWhile_le' [of isSpace "drop 1 s"] by (simp add: s1_def)
  from m have "take 1 s1 = ''}'' \<or> take 1 s1 = '']''" "rest = drop 1 s1"
    by (auto simp: matchTrailingComma_def Let_def s1_def split: if_splits)
  then have "length rest < length s1"
    by (cases s1) auto
  with le show ?thesis by simp
qed

lemma balanceBraces_append:
  "balanceBraces t = t @ replicate (countChar CHR ''{'' t - countChar CHR ''}'' t) CHR ''}''"
  by (simp add: balanceBraces_def Let_def)

lemma balanceBraces_balanced:
  "countChar CHR ''{'' (balanceBraces t) \<le> countChar CHR ''}'' (balanceBraces t)"
  by (simp add: balanceBraces_append countChar_def)





text \<open>The transforms one by one, the trailing comma of the specification, and its
  end-to-end scenario: the code returns the default confidence 85 there, not 100.\<close>

lemma transform_examples:
  \<open>quoteKeys ''{businessType: 'Pottery', confidence: 120}'' =
     ''{"businessType": 'Pottery', "confidence": 120}''\<close>
  \<open>fixSingleQuotes ''{"businessType": 'Pottery', "confidence": 120}'' =
     ''{"businessType": "Pottery", "confidence": 120}''\<close>
  \<open>removeTrailingCommas ''{"a":1,}'' = ''{"a":1}''\<close>
  \<open>removeTrailingCommas ''{"a":[1, 2 , ] }'' = ''{"a":[1, 2  ] }''\<close>
  by (simp_all add: repair_eval)

lemma trailing_comma_repaired:
  \<open>JSON_parse ''{"a":1,}'' = None\<close>
  \<open>JSON_parse (repairJson ''{"a":1,}'') = Some (JObj [(''a'', JNum (Fin 1))])\<close>
  by (simp_all add: repairJson_def quoteKeys_def fixSingleQuotes_def removeTrailingCommas_def
      balanceBraces_def countChar_def matchKey_def matchSingleQuoted_def matchTrailingComma_def
      json_eval)

lemma end_to_end_scenario:
  \<open>parseAIResponse (''Here is the result:'' @ [CHR 0x0A, tick, tick, tick] @ ''json'' @ [CHR 0x0A]
      @ ''{businessType: 'Pottery', confidence: 120}'' @ [CHR 0x0A, tick, tick, tick, CHR 0x0A]
      @ ''Hope this helps!'') =
   Inr ((repairedAnalysis (JObj [])) \<lparr> businessType := ''Pottery'', confidence := Fin 85 \<rparr>)\<close>
proof -
  have e: \<open>extractJson (''Here is the result:'' @ [CHR 0x0A, tick, tick, tick] @ ''json'' @ [CHR 0x0A]
      @ ''{businessType: 'Pottery', confidence: 120}'' @ [CHR 0x0A, tick, tick, tick, CHR 0x0A]
      @ ''Hope this helps!'') = Inr ''{businessType: 'Pottery', confidence: 120}''\<close>
    by (simp add: extract_eval)
  have p1: \<open>JSON_parse ''{businessType: 'Pottery', confidence: 120}'' = None\<close>
    by (simp add: json_eval)
  have r: \<open>repairJson ''{businessType: 'Pottery', confidence: 120}'' =
      ''{"businessType": "Pottery", "confidence": 120}''\<close>
    by (simp add: repair_eval)
  have p2: \<open>JSON_parse ''{"businessType": "Pottery", "confidence": 120}'' =
      Some (JObj [(''businessType'', JStr ''Pottery''), (''confidence'', JNum (Fin 120))])\<close>
    by (simp add: json_eval)
  have v: \<open>validateAndRepairAnalysis
        (JObj [(''businessType'', JStr ''Pottery''), (''confidence'', JNum (Fin 120))]) =
      Inr ((repairedAnalysis (JObj [])) \<lparr> businessType := ''Pottery'', confidence := Fin 85 \<rparr>)\<close>
    by (simp add: validateAndRepairAnalysis_def repairedAnalysis_def nonEmptyStringOr_def
        confidenceOf_def optField_def Let_def)
  show ?thesis
    unfolding parseAIResponse_def e
    by (simp add: tryParse_def p1 r p2 v tick_def)
qed

section \<open>Properties of the fields\<close>

text \<open>
  C2. The confidence 150 and the confidence -10, given as numbers, both become the default
  85, not the bounds 100 and 0: the range test sends an out-of-range number on to the
  branch for strings and from there to the default. Only a numeric string is clamped:
  "87" becomes 87 and "150" becomes 100.
\<close>

theorem confidence_out_of_range:
  \<open>map_sum id confidence (validateAndRepairAnalysis (JObj [(''confidence'', JNum (Fin 150))])) = Inr (Fin 85) \<and>
   map_sum id confidence (validateAndRepairAnalysis (JObj [(''confidence'', JNum (Fin (-10)))])) = Inr (Fin 85) \<and>
   map_sum id confidence (validateAndRepairAnalysis (JObj [(''confidence'', JStr ''87'')])) = Inr (Fin 87) \<and>
   map_sum id confidence (validateAndRepairAnalysis (JObj [(''confidence'', JStr ''150'')])) = Inr (Fin 100)\<close>
  by code_simp

lemma confidenceOf_number:
  "confidenceOf (Some (JNum n)) = (if num_le (Fin 0) n \<and> num_le n (Fin 100) then n else Fin 85)"
  by (simp add: confidenceOf_def)

text \<open>
  C6, as the code has it. For every reason \<open>r\<close> the fallback record has the marker
  \<^verbatim>\<open>fallback: true\<close> and \<open>r\<close> as its first problem, followed by the two canned
  problems; the record is a function of \<open>r\<close> alone. It is schema-valid when \<open>r\<close> is not
  empty.
\<close>

theorem fallback_spec:
  "fallback (createFallbackAnalysis r) = Some True \<and>
   topProblems (createFallbackAnalysis r) = [r, ''Limited online presence'', ''Need better customer reach''] \<and>
   (r \<noteq> [] \<longrightarrow> schemaValid (createFallbackAnalysis r))"
  by (simp add: fallback_valid) (simp add: createFallbackAnalysis_def)

theorem fallback_spec_witness:
  "fallback (createFallbackAnalysis ''Transcription failed'') = Some True \<and>
   hd (topProblems (createFallbackAnalysis ''Transcription failed'')) = ''Transcription failed'' \<and>
   schemaValid (createFallbackAnalysis ''Transcription failed'')"
  using fallback_spec [of "''Transcription failed''"] by simp

text \<open>With the empty reason the first problem is the empty string, which the normalizer
  would filter out of a list of problems.\<close>

theorem fallback_empty_reason: "\<not> schemaValid (createFallbackAnalysis '''')"
  by (simp add: fallback_valid)

text \<open>
  C7. For every input the normalizer accepts, the id of the primary solution is the id
  the input asks for when that is one of \<^verbatim>\<open>website\<close>, \<^verbatim>\<open>whatsapp\<close>,
  \<^verbatim>\<open>instagram\<close>, and \<^verbatim>\<open>website\<close> otherwise; the id of the secondary solution
  likewise, with the default \<^verbatim>\<open>whatsapp\<close>.
\<close>

theorem solution_ids:
  assumes "data \<noteq> JNull"
  shows "\<exists>a. validateAndRepairAnalysis data = Inr a \<and>
     sol_id (primary (recommendedSolutions a)) =
       (case requestedId data ''primary'' of
          Some (JStr s) \<Rightarrow> if s \<in> set validSolutionIds then s else ''website''
        | _ \<Rightarrow> ''website'') \<and>
     sol_id (secondary (recommendedSolutions a)) =
       (case requestedId data ''secondary'' of
          Some (JStr s) \<Rightarrow> if s \<in> set validSolutionIds then s else ''whatsapp''
        | _ \<Rightarrow> ''whatsapp'')"
proof -
  have id: "checkedId (orElse x (JStr d)) d =
      (case x of Some (JStr s) \<Rightarrow> if s \<in> set validSolutionIds then s else d | _ \<Rightarrow> d)"
    if "d \<in> set validSolutionIds" for x d
    using that
    by (auto simp: checkedId_def orElse_def validSolutionIds_def split: option.splits json.splits)
  have ids: "''website'' \<in> set validSolutionIds" "''whatsapp'' \<in> set validSolutionIds"
    by (simp_all add: validSolutionIds_def)
  show ?thesis
    using assms
    by (simp add: validateAndRepairAnalysis_def repairedAnalysis_def Let_def solutionOf_def
        requestedId_def id ids)
qed

theorem solution_ids_witness:
  "\<exists>a. validateAndRepairAnalysis (JObj [(''recommendedSolutions'',
        JObj [(''primary'', JObj [(''id'', JStr ''tiktok'')]),
              (''secondary'', JObj [(''id'', JStr ''instagram'')])])]) = Inr a \<and>
     sol_id (primary (recommendedSolutions a)) = ''website'' \<and>
     sol_id (secondary (recommendedSolutions a)) = ''instagram''"
  using solution_ids [of "JObj [(''recommendedSolutions'',
        JObj [(''primary'', JObj [(''id'', JStr ''tiktok'')]),
              (''secondary'', JObj [(''id'', JStr ''instagram'')])])]"]
  by (simp add: requestedId_def optField_def validSolutionIds_def)


section \<open>Properties of the quotation\<close>

lemma numberOr_not_NaN: "d \<noteq> NaN \<Longrightarrow> numberOr x d \<noteq> NaN"
  by (simp add: numberOr_def Let_def)

lemma Math_max_50:
  "x \<noteq> NaN \<Longrightarrow> Math_max (Fin 50) x = PosInf \<or> (\<exists>r. Math_max (Fin 50) x = Fin r \<and> 50 \<le> r)"
  by (cases x) (auto simp: Math_max_def)

lemma times1_5_greater: "50 \<le> r \<Longrightarrow> num_less (Fin r) (times1_5 (Fin r))"
  by (auto simp: toDouble_def)

lemma range_min_cases:
  "range_min (priceRange (validated q)) = PosInf \<or>
   (\<exists>r. range_min (priceRange (validated q)) = Fin r \<and> 50 \<le> r)"
  by (simp add: validated_def Let_def Math_max_50 numberOr_not_NaN)

lemma range_max_not_NaN: "range_max (priceRange (validated q)) \<noteq> NaN"
  by (simp add: validated_def Let_def Math_min_def numberOr_not_NaN)

lemma not_le_less: "a \<noteq> NaN \<Longrightarrow> b \<noteq> NaN \<Longrightarrow> \<not> num_le b a \<Longrightarrow> num_less a b"
  by (cases a; cases b) auto

lemma ensureMinMax_range_min: "range_min (priceRange (ensureMinMax v)) = range_min (priceRange v)"
  by (simp add: ensureMinMax_def)

lemma min_less_max_finite:
  assumes "validateQuotation q = Inr v" "range_min (priceRange v) \<noteq> PosInf"
  shows "num_less (range_min (priceRange v)) (range_max (priceRange v))"
proof -
  from assms(1) have v: "v = ensureMinMax (validated q)"
    by (auto simp: validateQuotation_def split: if_splits)
  with assms(2) obtain r where r: "range_min (priceRange (validated q)) = Fin r" "50 \<le> r"
    using range_min_cases [of q] by (auto simp: ensureMinMax_range_min)
  show ?thesis
  proof (cases "num_le (range_max (priceRange (validated q))) (range_min (priceRange (validated q)))")
    case True
    then show ?thesis
      using r times1_5_greater [of r] by (simp add: v ensureMinMax_def)
  next
    case False
    then show ?thesis
      using r range_max_not_NaN [of q] not_le_less by (simp add: v ensureMinMax_def)
  qed
qed

lemmas quote_eval = validateQuotation_def validated_def ensureMinMax_def numberOr_def Number_def
  optField_def orElse_def Math_max_def Math_min_def

lemmas number_eval = StringToNumber_def decimalLiteral_def prefixedInteger_def digits_eval
  text_eval

theorem infinite_minimum:
  \<open>JSON_parse ''{"priceRange":{"min":"Infinity"}}'' =
     Some (JObj [(''priceRange'', JObj [(''min'', JStr ''Infinity'')])]) \<and>
   map_sum id priceRange
     (validateQuotation (JObj [(''priceRange'', JObj [(''min'', JStr ''Infinity'')])])) =
     Inr \<lparr> range_min = PosInf, range_max = PosInf \<rparr> \<and>
   map_sum id priceRange
     (validateQuotation (JObj [(''priceRange'', JObj [(''min'', JNum PosInf)])])) =
     Inr \<lparr> range_min = PosInf, range_max = PosInf \<rparr> \<and>
   \<not> num_less PosInf PosInf\<close>
proof -
  have a: \<open>JSON_parse ''{"priceRange":{"min":"Infinity"}}'' =
     Some (JObj [(''priceRange'', JObj [(''min'', JStr ''Infinity'')])])\<close>
    by (simp add: json_eval)
  have b: \<open>map_sum id priceRange
     (validateQuotation (JObj [(''priceRange'', JObj [(''min'', JStr ''Infinity'')])])) =
     Inr \<lparr> range_min = PosInf, range_max = PosInf \<rparr>\<close>
    by (simp add: quote_eval number_eval)
  have c: \<open>map_sum id priceRange
     (validateQuotation (JObj [(''priceRange'', JObj [(''min'', JNum PosInf)])])) =
     Inr \<lparr> range_min = PosInf, range_max = PosInf \<rparr>\<close>
    by (simp add: quote_eval Let_def)
  show ?thesis using a b c by simp
qed

lemma template_like:
  \<open>map_sum id priceRange (validateQuotation (JObj [(''priceRange'', JObj [(''min'', JStr '' 9e2 ''), (''max'', JNum (Fin 100))])])) =
     Inr \<lparr> range_min = Fin 900, range_max = Fin 1350 \<rparr>\<close>
  by (simp add: quote_eval number_eval)

section \<open>Normalizing a valid object\<close>

lemma nonEmptyStringOr_string: "s \<noteq> [] \<Longrightarrow> nonEmptyStringOr (Some (JStr s)) d = s"
  by (simp add: nonEmptyStringOr_def)

lemma solutionOf_valid:
  assumes "validSolution s"
  shows "solutionOf (Some (solution_to_json s)) d d' r = s"
proof -
  from assms have "sol_id s \<noteq> []"
    by (auto simp: validSolution_def validSolutionIds_def)
  with assms show ?thesis
    by (simp add: solutionOf_def solution_to_json_def optField_def orElse_def checkedId_def
        validSolution_def)
qed

lemma confidenceOf_valid:
  "num_le (Fin 0) c \<Longrightarrow> num_le c (Fin 100) \<Longrightarrow> confidenceOf (Some (JNum c)) = c"
  by (simp add: confidenceOf_def)

lemma analysis_unchanged:
  assumes "schemaValid a" "fallback a = None"
  shows "validateAndRepairAnalysis (analysis_to_json a) = Inr a"
proof -
  have ps: "filterProblems (map JStr (topProblems a)) = topProblems a" "topProblems a \<noteq> []"
    using assms(1) by (simp_all add: schemaValid_def filterProblems_strings)
  have "repairedAnalysis (analysis_to_json a) = a"
    using assms ps
    by (simp add: repairedAnalysis_def analysis_to_json_def Let_def schemaValid_def
        nonEmptyStringOr_string solutionOf_valid confidenceOf_valid optField_def)
  then show ?thesis
    by (simp add: validateAndRepairAnalysis_def analysis_to_json_def)
qed

lemma clamp_unchanged:
  assumes "inRange lo hi n" "n \<noteq> Fin 0 \<or> d = Fin 0"
  shows "Math_max (Fin lo) (Math_min (Fin hi) (numberOr (Some (JNum n)) d)) = n"
  using assms
  by (cases n) (auto simp: inRange_def Math_max_def Math_min_def numberOr_def Number_def Let_def)

lemma lower_unchanged:
  assumes "num_le (Fin lo) n" "n \<noteq> Fin 0 \<or> d = Fin 0"
  shows "Math_max (Fin lo) (numberOr (Some (JNum n)) d) = n"
  using assms
  by (cases n) (auto simp: Math_max_def numberOr_def Number_def Let_def)

lemma upper_unchanged:
  assumes "num_le n (Fin hi)" "n \<noteq> Fin 0"
  shows "Math_min (Fin hi) (numberOr (Some (JNum n)) d) = n"
  using assms
  by (cases n) (auto simp: Math_min_def numberOr_def Number_def Let_def)

lemma numberOr_unchanged: "n \<noteq> NaN \<Longrightarrow> n \<noteq> Fin 0 \<Longrightarrow> numberOr (Some (JNum n)) d = n"
  by (simp add: numberOr_def Number_def)

lemma orElse_boolean: "isBoolean x \<Longrightarrow> orElse (Some x) (JBool False) = x"
  by (cases x) (auto simp: orElse_def isBoolean_def)

lemma truthy_object: "isObject x \<Longrightarrow> truthy x"
  by (cases x) (auto simp: isObject_def)

lemma truthy_string: "isString x \<Longrightarrow> x \<noteq> JStr [] \<Longrightarrow> truthy x"
  by (cases x) (auto simp: isString_def)

lemma above_50_nonzero: "num_le (Fin 50) a \<Longrightarrow> num_less a b \<Longrightarrow> b \<noteq> Fin 0"
  by (cases a; cases b) auto

lemma less_not_le: "num_less a b \<Longrightarrow> \<not> num_le b a"
  by (cases a; cases b) auto

lemma quotation_unchanged:
  assumes "validQuotation v" "noFalsyField v"
  shows "validateQuotation (quotation_to_json v) = Inr v"
proof -
  have nz: "basePrice v \<noteq> Fin 0" "range_min (priceRange v) \<noteq> Fin 0"
    "quote_confidence v \<noteq> Fin 0"
    using assms(1) by (auto simp: validQuotation_def inRange_def)
  have nz': "range_max (priceRange v) \<noteq> Fin 0"
    using assms(1) above_50_nonzero [of "range_min (priceRange v)" "range_max (priceRange v)"]
    by (simp add: validQuotation_def)
  have "validated (quotation_to_json v) = v"
    using assms nz nz'
    by (simp add: validated_def quotation_to_json_def Let_def validQuotation_def noFalsyField_def
        optField_def clamp_unchanged lower_unchanged upper_unchanged numberOr_unchanged
        orElse_truthy orElse_boolean truthy_object truthy_string)
  moreover have "ensureMinMax v = v"
    using assms(1) by (simp add: ensureMinMax_def validQuotation_def less_not_le)
  ultimately show ?thesis
    by (simp add: validateQuotation_def quotation_to_json_def)
qed

text \<open>
  C5, as the code has it. \<^verbatim>\<open>validateAndRepairAnalysis\<close> returns unchanged every object
  that has the fields of its result and is schema-valid. \<^verbatim>\<open>validateQuotation\<close>
  returns a valid quotation unchanged when none of its customization prices and bulk
  discounts is zero and its notes are not empty: \<^verbatim>\<open>||\<close> takes a zero and an empty
  string for a missing field and puts the default in their place.
\<close>

theorem normalization_unchanged:
  "(schemaValid a \<and> fallback a = None \<longrightarrow>
      validateAndRepairAnalysis (analysis_to_json a) = Inr a) \<and>
   (validQuotation v \<and> noFalsyField v \<longrightarrow>
      validateQuotation (quotation_to_json v) = Inr v)"
  by (simp add: analysis_unchanged quotation_unchanged)

theorem normalization_unchanged_witness:
  "validateAndRepairAnalysis (analysis_to_json (repairedAnalysis (JObj []))) =
     Inr (repairedAnalysis (JObj [])) \<and>
   validateQuotation (quotation_to_json promptQuotation) = Inr promptQuotation"
proof -
  have a: "schemaValid (repairedAnalysis (JObj []))" "fallback (repairedAnalysis (JObj [])) = None"
    by (simp_all add: repaired_valid) (simp add: repairedAnalysis_def)
  have v: "validQuotation promptQuotation" "noFalsyField promptQuotation"
    by (simp_all add: validQuotation_def noFalsyField_def promptQuotation_def inRange_def
        isObject_def isString_def isBoolean_def)
  show ?thesis
    using normalization_unchanged [of "repairedAnalysis (JObj [])" promptQuotation] a v
    by simp
qed

text \<open>A valid quotation with a discount of zero comes back with the default discount of
  ten.\<close>

theorem zero_discount_replaced:
  "validQuotation noDiscountQuotation \<and>
   map_sum id bulkDiscounts (validateQuotation (quotation_to_json noDiscountQuotation)) =
     Inr \<lparr> quantity5 = Fin 10, quantity10 = Fin 18, quantity25 = Fin 25 \<rparr> \<and>
   validateQuotation (quotation_to_json noDiscountQuotation) \<noteq> Inr noDiscountQuotation"
proof -
  have a: "validQuotation noDiscountQuotation"
    by (simp add: validQuotation_def noDiscountQuotation_def promptQuotation_def inRange_def
        isObject_def isString_def isBoolean_def)
  have b: "map_sum id bulkDiscounts (validateQuotation (quotation_to_json noDiscountQuotation)) =
     Inr \<lparr> quantity5 = Fin 10, quantity10 = Fin 18, quantity25 = Fin 25 \<rparr>"
    by (simp add: quote_eval Let_def quotation_to_json_def noDiscountQuotation_def
        promptQuotation_def)
  have c: "map_sum id bulkDiscounts (Inr noDiscountQuotation :: error + quotation) =
     Inr \<lparr> quantity5 = Fin 0, quantity10 = Fin 18, quantity25 = Fin 25 \<rparr>"
    by (simp add: noDiscountQuotation_def)
  have "validateQuotation (quotation_to_json noDiscountQuotation) \<noteq> Inr noDiscountQuotation"
  proof
    assume "validateQuotation (quotation_to_json noDiscountQuotation) = Inr noDiscountQuotation"
    with b c show False by simp
  qed
  with a b show ?thesis by simp
qed

text \<open>Nor is \<^verbatim>\<open>validateQuotation\<close> idempotent on its own results: a negative discount
  is clamped to zero, and the zero becomes ten when the result is validated again.\<close>

lemma validateQuotation_twice:
  "map_sum id (quantity5 \<circ> bulkDiscounts)
     (validateQuotation (JObj [(''bulkDiscounts'', JObj [(''quantity5'', JNum (Fin (-5)))])])) =
     Inr (Fin 0) \<and>
   map_sum id (quantity5 \<circ> bulkDiscounts)
     (validateQuotation (JObj [(''bulkDiscounts'', JObj [(''quantity5'', JNum (Fin 0))])])) =
     Inr (Fin 10)"
  by (simp add: quote_eval Let_def)


section \<open>Properties of transcribeAudio\<close>

lemma errorsOf_Cons:
  "errorsOf client (cfg # cfgs) =
     (case tryEncoding (client (fst cfg) (snd cfg)) of Threw m \<Rightarrow> [m] | _ \<Rightarrow> []) @ errorsOf client cfgs"
  by (simp add: errorsOf_def)

lemma errorsOf_Nil: "errorsOf client [] = []"
  by (simp add: errorsOf_def)

lemma tryAll_spec:
  "tryAll client cfgs lastErr calls =
     (case find (viable client) cfgs of
        Some cfg \<Rightarrow>
          (Transcribed (transcriptOf client cfg) (fst cfg),
           calls @ map fst (takeWhile (\<lambda>c. \<not> viable client c) cfgs) @ [fst cfg])
      | None \<Rightarrow>
          (TranscriptionFailed
             (''Speech recognition failed with all formats. Last error: '' @
              lastErrorText (case lastOf (errorsOf client cfgs) of None \<Rightarrow> lastErr | Some m \<Rightarrow> Some m)),
           calls @ map fst cfgs))"
proof (induction cfgs arbitrary: lastErr calls)
  case Nil
  then show ?case by (simp add: errorsOf_Nil lastOf_def)
next
  case (Cons cfg cfgs)
  obtain enc rate where cfg: "cfg = (enc, rate)" by (cases cfg)
  show ?case
  proof (cases "tryEncoding (client enc rate)")
    case (Viable t)
    then show ?thesis
      by (simp add: cfg viable_def transcriptOf_def)
  next
    case NotViable
    then show ?thesis
      by (simp add: cfg Cons.IH viable_def errorsOf_Cons split: option.splits)
  next
    case (Threw m)
    then show ?thesis
      by (simp add: cfg Cons.IH viable_def errorsOf_Cons lastOf_def split: option.splits)
  qed
qed

text \<open>
  C8. With a speech client, \<^verbatim>\<open>transcribeAudio\<close> goes through WEBM_OPUS, MP3, WAV and
  OGG_OPUS in this order, with one call for each encoding it tries. At the first encoding
  whose joined and trimmed transcript has more than 10 characters it returns that
  transcript and the encoding, having called the encodings before it and no encoding after
  it. When no encoding gives such a transcript it has called all four and reports the
  failure with the message of the last error caught (\<^verbatim>\<open>Unknown\<close> when there was none).
\<close>

theorem transcribeAudio_spec:
  "map fst encodingConfigs = [WEBM_OPUS, MP3, WAV, OGG_OPUS] \<and>
   transcribeAudio (Some client) =
     Inr (case find (viable client) encodingConfigs of
            Some cfg \<Rightarrow>
              (Transcribed (transcriptOf client cfg) (fst cfg),
               map fst (takeWhile (\<lambda>c. \<not> viable client c) encodingConfigs) @ [fst cfg])
          | None \<Rightarrow>
              (TranscriptionFailed
                 (''Speech recognition failed with all formats. Last error: '' @
                  lastErrorText (lastOf (errorsOf client encodingConfigs))),
               map fst encodingConfigs))"
proof -
  have "(case lastOf es of None \<Rightarrow> None | Some m \<Rightarrow> Some m) = lastOf es" for es
    by (simp split: option.splits)
  then show ?thesis
    by (simp add: transcribeAudio_def tryAll_spec) (simp add: encodingConfigs_def)
qed

theorem transcribeAudio_spec_witness:
  "transcribeAudio (Some mp3Client) =
     Inr (Transcribed ''we sell pottery and textiles'' MP3, [WEBM_OPUS, MP3]) \<and>
   transcribeAudio (Some deafClient) =
     Inr (TranscriptionFailed ''Speech recognition failed with all formats. Last error: no speech'',
          [WEBM_OPUS, MP3, WAV, OGG_OPUS])"
proof -
  have a: "tryEncoding (mp3Client WEBM_OPUS 48000) = Threw ''bad encoding''"
    "tryEncoding (mp3Client MP3 44100) = Viable ''we sell pottery and textiles''"
    by (simp_all add: mp3Client_def tryEncoding_def trim_def trimEnd_def isSpace_def)
  have b: "tryEncoding (deafClient WEBM_OPUS 48000) = NotViable"
    "tryEncoding (deafClient MP3 44100) = NotViable"
    "tryEncoding (deafClient WAV 16000) = Threw ''no speech''"
    "tryEncoding (deafClient OGG_OPUS 48000) = NotViable"
    by (simp_all add: deafClient_def tryEncoding_def trim_def trimEnd_def isSpace_def)
  show ?thesis
    using transcribeAudio_spec [of mp3Client] transcribeAudio_spec [of deafClient]
    by (simp add: encodingConfigs_def viable_def transcriptOf_def errorsOf_def lastOf_def
        lastErrorText_def a b)
qed

text \<open>Without a speech client the function throws before any call.\<close>

lemma transcribeAudio_unavailable: "transcribeAudio None = Inl ServiceUnavailable"
  by (simp add: transcribeAudio_def)

section \<open>Properties of sendWhatsAppMessage\<close>







end
